theory Spec2Isabelle
  imports Main
begin

section \<open>Go values used by the WeChat Work (corp account) channel\<close>

text \<open>
  The development embeds two source files: the channel client
  \<^verbatim>\<open>pkg/message/wechat_corp_account.go\<close> (token cache, transport selection, the three
  send operations) and the channel dispatcher \<^verbatim>\<open>SendUnified\<close>.

  A Go \<^verbatim>\<open>string\<close> is a byte sequence, here a \<^typ>\<open>string\<close>; the Chinese literals of the
  source are written as their UTF-8 bytes. A Go \<^verbatim>\<open>error\<close> is a value carrying its
  message; \<^verbatim>\<open>nil\<close> is \<^term>\<open>None\<close>. A Go result pair \<^verbatim>\<open>(string, error)\<close> is
  a pair \<open>string \<times> error option\<close>, because the source returns a body \<^emph>\<open>and\<close> an
  error on some paths.
\<close>

datatype error = Error string

fun Error_msg :: "error \<Rightarrow> string" where
  "Error_msg (Error s) = s"

text \<open>
  Go's \<^verbatim>\<open>int\<close> and \<^verbatim>\<open>time.Duration\<close> are 64-bit signed integers (the Dockerfile
  builds for 64-bit Linux). They are modelled as \<^typ>\<open>int\<close> with the wrap-around of the
  one arithmetic operation of the source, the multiplication in \<^verbatim>\<open>refreshAccessToken\<close>,
  written out. A \<^verbatim>\<open>time.Time\<close> is a point on one timeline, counted in nanoseconds from
  the zero Time \<^verbatim>\<open>time.Time{}\<close>; the range of \<^verbatim>\<open>time.Time\<close> (hundreds of billions of
  years) is not modelled.
\<close>

type_synonym Time = int
type_synonym Duration = int

definition int64 :: "int \<Rightarrow> int" where
  "int64 x = (x + 2 ^ 63) mod 2 ^ 64 - 2 ^ 63"

definition Second :: Duration where
  "Second = 1000000000"

definition Duration_mul :: "Duration \<Rightarrow> Duration \<Rightarrow> Duration" where
  "Duration_mul a b = int64 (a * b)"

definition Time_zero :: Time where
  "Time_zero = 0"

definition Time_Add :: "Time \<Rightarrow> Duration \<Rightarrow> Time" where
  "Time_Add t d = t + d"

definition Time_Before :: "Time \<Rightarrow> Time \<Rightarrow> bool" where
  "Time_Before t u \<longleftrightarrow> t < u"

subsection \<open>Formatting and joining\<close>

definition digit_char :: "nat \<Rightarrow> char" where
  "digit_char d = char_of (48 + d)"

function digits_of_nat :: "nat \<Rightarrow> string" where
  "digits_of_nat n =
     (if n < 10 then [digit_char n] else digits_of_nat (n div 10) @ [digit_char (n mod 10)])"
  by pat_completeness auto
termination
  by (relation "measure (\<lambda>n. n)") auto

declare digits_of_nat.simps [simp del]

text \<open>The verb \<^verbatim>\<open>%d\<close> of \<^verbatim>\<open>fmt.Sprintf\<close>: decimal, with a minus sign.\<close>

definition Sprintf_d :: "int \<Rightarrow> string" where
  "Sprintf_d i = (if i < 0 then ''-'' @ digits_of_nat (nat (- i)) else digits_of_nat (nat i))"

text \<open>\<^verbatim>\<open>strings.Join(elems, sep)\<close>.\<close>

fun strings_Join :: "string list \<Rightarrow> string \<Rightarrow> string" where
  "strings_Join [] sep = ''''"
| "strings_Join [x] sep = x"
| "strings_Join (x # y # ys) sep = x @ sep @ strings_Join (y # ys) sep"

text \<open>\<^verbatim>\<open>strings.HasPrefix(s, prefix)\<close>.\<close>

fun strings_HasPrefix :: "string \<Rightarrow> string \<Rightarrow> bool" where
  "strings_HasPrefix s [] = True"
| "strings_HasPrefix [] (p # ps) = False"
| "strings_HasPrefix (c # cs) (p # ps) = (c = p \<and> strings_HasPrefix cs ps)"

subsection \<open>The string literals of the source\<close>

text \<open>Each literal is the UTF-8 byte sequence of the Go literal at the line named.\<close>

definition msg_type_assert :: string where
  \<comment> \<open>SendUnified, line 21: "type conversion failed"\<close>
  "msg_type_assert =
     [CHR 0xE7, CHR 0xB1, CHR 0xBB, CHR 0xE5, CHR 0x9E, CHR 0x8B, CHR 0xE8, CHR 0xBD, CHR 0xAC,
      CHR 0xE6, CHR 0x8D, CHR 0xA2, CHR 0xE5, CHR 0xA4, CHR 0xB1, CHR 0xE8, CHR 0xB4, CHR 0xA5]"

definition msg_config_check :: string where
  \<comment> \<open>SendUnified, line 31: "corp account config validation failed"\<close>
  "msg_config_check =
     [CHR 0xE4, CHR 0xBC, CHR 0x81, CHR 0xE4, CHR 0xB8, CHR 0x9A, CHR 0xE5, CHR 0xBE, CHR 0xAE,
      CHR 0xE4, CHR 0xBF, CHR 0xA1, CHR 0xE5, CHR 0xBA, CHR 0x94, CHR 0xE7, CHR 0x94, CHR 0xA8]
     @ ''config'' @
     [CHR 0xE6, CHR 0xA0, CHR 0xA1, CHR 0xE9, CHR 0xAA, CHR 0x8C, CHR 0xE5, CHR 0xA4, CHR 0xB1,
      CHR 0xE8, CHR 0xB4, CHR 0xA5]"

definition msg_unknown_kind :: string where
  \<comment> \<open>SendUnified, line 67, up to the verb: "unknown corp account content type:"\<close>
  "msg_unknown_kind =
     [CHR 0xE6, CHR 0x9C, CHR 0xAA, CHR 0xE7, CHR 0x9F, CHR 0xA5, CHR 0xE7, CHR 0x9A, CHR 0x84,
      CHR 0xE4, CHR 0xBC, CHR 0x81, CHR 0xE4, CHR 0xB8, CHR 0x9A, CHR 0xE5, CHR 0xBE, CHR 0xAE,
      CHR 0xE4, CHR 0xBF, CHR 0xA1, CHR 0xE5, CHR 0xBA, CHR 0x94, CHR 0xE7, CHR 0x94, CHR 0xA8,
      CHR 0xE5, CHR 0x8F, CHR 0x91, CHR 0xE9, CHR 0x80, CHR 0x81, CHR 0xE5, CHR 0x86, CHR 0x85,
      CHR 0xE5, CHR 0xAE, CHR 0xB9, CHR 0xE7, CHR 0xB1, CHR 0xBB, CHR 0xE5, CHR 0x9E, CHR 0x8B,
      CHR 0xEF, CHR 0xBC, CHR 0x9A]"

definition msg_send_failed :: string where
  \<comment> \<open>SendUnified, line 72, up to the verb: "send failed:"\<close>
  "msg_send_failed =
     [CHR 0xE5, CHR 0x8F, CHR 0x91, CHR 0xE9, CHR 0x80, CHR 0x81, CHR 0xE5, CHR 0xA4, CHR 0xB1,
      CHR 0xE8, CHR 0xB4, CHR 0xA5, CHR 0xEF, CHR 0xBC, CHR 0x9A]"

definition msg_param_missing :: string where
  \<comment> \<open>GetAccessToken, line 75: "corp account parameter missing"\<close>
  "msg_param_missing =
     [CHR 0xE4, CHR 0xBC, CHR 0x81, CHR 0xE4, CHR 0xB8, CHR 0x9A, CHR 0xE5, CHR 0xBE, CHR 0xAE,
      CHR 0xE4, CHR 0xBF, CHR 0xA1, CHR 0xE5, CHR 0xBA, CHR 0x94, CHR 0xE7, CHR 0x94, CHR 0xA8,
      CHR 0xE5, CHR 0x8F, CHR 0x82, CHR 0xE6, CHR 0x95, CHR 0xB0, CHR 0xE7, CHR 0xBC, CHR 0xBA,
      CHR 0xE5, CHR 0xA4, CHR 0xB1]"

definition msg_token_invalid :: string where
  \<comment> \<open>refreshAccessToken, line 125: "access_token response invalid"\<close>
  "msg_token_invalid =
     [CHR 0xE4, CHR 0xBC, CHR 0x81, CHR 0xE4, CHR 0xB8, CHR 0x9A, CHR 0xE5, CHR 0xBE, CHR 0xAE,
      CHR 0xE4, CHR 0xBF, CHR 0xA1]
     @ '' access_token '' @
     [CHR 0xE5, CHR 0x93, CHR 0x8D, CHR 0xE5, CHR 0xBA, CHR 0x94, CHR 0xE6, CHR 0x97, CHR 0xA0,
      CHR 0xE6, CHR 0x95, CHR 0x88]"

definition msg_empty_receiver :: string where
  \<comment> \<open>send, line 176: "receiver must not be empty"\<close>
  "msg_empty_receiver =
     [CHR 0xE4, CHR 0xBC, CHR 0x81, CHR 0xE4, CHR 0xB8, CHR 0x9A, CHR 0xE5, CHR 0xBE, CHR 0xAE,
      CHR 0xE4, CHR 0xBF, CHR 0xA1, CHR 0xE5, CHR 0xBA, CHR 0x94, CHR 0xE7, CHR 0x94, CHR 0xA8,
      CHR 0xE6, CHR 0x8E, CHR 0xA5, CHR 0xE6, CHR 0x94, CHR 0xB6, CHR 0xE8, CHR 0x80, CHR 0x85,
      CHR 0xE4, CHR 0xB8, CHR 0x8D, CHR 0xE8, CHR 0x83, CHR 0xBD, CHR 0xE4, CHR 0xB8, CHR 0xBA,
      CHR 0xE7, CHR 0xA9, CHR 0xBA]"

definition msg_bad_agentid :: string where
  \<comment> \<open>send, line 179: "AgentID invalid"\<close>
  "msg_bad_agentid =
     [CHR 0xE4, CHR 0xBC, CHR 0x81, CHR 0xE4, CHR 0xB8, CHR 0x9A, CHR 0xE5, CHR 0xBE, CHR 0xAE,
      CHR 0xE4, CHR 0xBF, CHR 0xA1, CHR 0xE5, CHR 0xBA, CHR 0x94, CHR 0xE7, CHR 0x94, CHR 0xA8]
     @ '' AgentID '' @
     [CHR 0xE6, CHR 0x97, CHR 0xA0, CHR 0xE6, CHR 0x95, CHR 0x88]"

definition token_endpoint :: string where
  "token_endpoint = ''https://qyapi.weixin.qq.com/cgi-bin/gettoken?corpid=''"

definition send_endpoint :: string where
  "send_endpoint = ''https://qyapi.weixin.qq.com/cgi-bin/message/send?access_token=''"

section \<open>Data model of package message\<close>

record wechatCorpTokenResponse =
  tok_ErrCode :: int
  tok_ErrMsg :: string
  AccessToken :: string
  ExpiresIn :: int

record wechatCorpSendResponse =
  ErrCode :: int
  ErrMsg :: string
  InvalidUser :: string

record wechatCorpTextCard =
  card_Title :: string
  card_Description :: string
  card_URL :: string

text \<open>
  The three payload fields of the request are pointers to anonymous structs; \<^term>\<open>None\<close>
  is the nil pointer. The text and markdown payloads have the single field
  \<^verbatim>\<open>Content\<close>.
\<close>

record wechatCorpSendRequest =
  ToUser :: string
  MsgType :: string
  req_AgentID :: int
  Safe :: int
  Text :: "string option"
  Markdown :: "string option"
  TextCard :: "wechatCorpTextCard option"

record wechatCorpTokenCacheItem =
  token :: string
  expiresAt :: Time

record WeChatCorpAccount =
  CorpID :: string
  AgentID :: int
  AgentSecret :: string
  ProxyURL :: string

subsection \<open>Library values: URLs, dialers, HTTP clients\<close>

text \<open>
  Of a parsed \<^verbatim>\<open>url.URL\<close> the source reads \<^verbatim>\<open>Host\<close> and \<^verbatim>\<open>User\<close> and passes the
  whole value to \<^verbatim>\<open>http.ProxyURL\<close>. \<^verbatim>\<open>User\<close> is a pointer, nil when the URL has no
  user-info; \<^verbatim>\<open>Password()\<close> gives the empty string when none is set.
\<close>

record url_Userinfo =
  Username :: string
  Password :: string

record url_URL =
  Scheme :: string
  User :: "url_Userinfo option"
  Host :: string
  Path :: string

record proxy_Auth =
  auth_User :: string
  auth_Password :: string

record net_Dialer =
  dial_Timeout :: Duration
  dial_KeepAlive :: Duration

record socks5_config =
  socks_network :: string
  socks_address :: string
  socks_auth :: "proxy_Auth option"
  socks_forward :: net_Dialer

text \<open>
  \<^verbatim>\<open>proxy.SOCKS5\<close> returns a value of the interface \<^verbatim>\<open>proxy.Dialer\<close>; the source then
  asserts that it also implements \<^verbatim>\<open>proxy.ContextDialer\<close>. The constructor records
  whether the dynamic type does.
\<close>

datatype proxy_Dialer = ContextDialer socks5_config | PlainDialer socks5_config

text \<open>
  The \<^verbatim>\<open>Transport\<close> of an \<^verbatim>\<open>http.Client\<close>: nil (the default, direct transport), a
  transport dialing through a SOCKS5 dialer, or a transport with a forward proxy.
\<close>

datatype http_Transport =
  DefaultTransport
  | DialContextTransport socks5_config
  | ProxyTransport url_URL

record http_Client =
  Timeout :: Duration
  Transport :: http_Transport

text \<open>
  An HTTP response, as far as the source reads it: the outcome of \<^verbatim>\<open>io.ReadAll\<close> on its
  body.
\<close>

record http_Response =
  Body :: "error + string"

definition io_ReadAll :: "http_Response \<Rightarrow> error + string" where
  "io_ReadAll resp = Body resp"

subsection \<open>The environment of one call\<close>

text \<open>
  Everything the client obtains from outside the repository is a field of the
  environment: the two readings of the clock (\<^verbatim>\<open>time.Now()\<close> in \<^verbatim>\<open>GetAccessToken\<close>,
  line 79, and in \<^verbatim>\<open>refreshAccessToken\<close>, line 128), the answers of the network to a GET
  and a POST, and the library functions \<^verbatim>\<open>json.Unmarshal\<close>, \<^verbatim>\<open>json.Marshal\<close>,
  \<^verbatim>\<open>url.QueryEscape\<close>, \<^verbatim>\<open>url.Parse\<close>, \<^verbatim>\<open>strings.ToLower\<close> and \<^verbatim>\<open>proxy.SOCKS5\<close>.
\<close>

record env =
  now_GetAccessToken :: Time
  now_refreshAccessToken :: Time
  client_Get :: "http_Client \<Rightarrow> string \<Rightarrow> error + http_Response"
  client_Post :: "http_Client \<Rightarrow> string \<Rightarrow> string \<Rightarrow> string \<Rightarrow> error + http_Response"
  json_Unmarshal_token :: "string \<Rightarrow> error + wechatCorpTokenResponse"
  json_Unmarshal_send :: "string \<Rightarrow> error + wechatCorpSendResponse"
  json_Marshal :: "wechatCorpSendRequest \<Rightarrow> error + string"
  url_QueryEscape :: "string \<Rightarrow> string"
  url_Parse :: "string \<Rightarrow> error + url_URL"
  strings_ToLower :: "string \<Rightarrow> string"
  proxy_SOCKS5 :: "string \<Rightarrow> string \<Rightarrow> proxy_Auth option \<Rightarrow> net_Dialer \<Rightarrow> error + proxy_Dialer"

subsection \<open>The state: the process-wide token cache and the network calls made\<close>

datatype net_event =
  HttpGet http_Client string
  | HttpPost http_Client string string string

text \<open>
  \<^verbatim>\<open>wechatCorpTokenCache.m\<close> is a Go map; \<open>net_log\<close> lists the requests sent so far,
  oldest first, so that "no network call" is a statement about the state. Calls are taken
  one after the other: the read-write mutex that guards the map is not modelled.
\<close>

record world =
  wechatCorpTokenCache :: "string \<rightharpoonup> wechatCorpTokenCacheItem"
  net_log :: "net_event list"

definition init_world :: world where
  "init_world = \<lparr>wechatCorpTokenCache = Map.empty, net_log = []\<rparr>"

text \<open>The two-result map read \<^verbatim>\<open>item, ok := m[key]\<close>: the zero item when the key is absent.\<close>

definition map_index :: "(string \<rightharpoonup> wechatCorpTokenCacheItem) \<Rightarrow> string \<Rightarrow> wechatCorpTokenCacheItem \<times> bool" where
  "map_index m key =
     (case m key of
        None \<Rightarrow> (\<lparr>token = '''', expiresAt = Time_zero\<rparr>, False)
      | Some item \<Rightarrow> (item, True))"

section \<open>Operations of package message\<close>

definition cacheKey :: "WeChatCorpAccount \<Rightarrow> string" where
  "cacheKey c = CorpID c @ ''|'' @ Sprintf_d (AgentID c) @ ''|'' @ AgentSecret c"

definition createSOCKS5Dialer :: "env \<Rightarrow> url_URL \<Rightarrow> error + socks5_config" where
  "createSOCKS5Dialer e proxyURL =
     (let host = Host proxyURL;
          auth = (case User proxyURL of
                    None \<Rightarrow> None
                  | Some u \<Rightarrow> Some \<lparr>auth_User = Username u, auth_Password = Password u\<rparr>);
          baseDialer = \<lparr>dial_Timeout = 30 * Second, dial_KeepAlive = 30 * Second\<rparr>
      in case proxy_SOCKS5 e ''tcp'' host auth baseDialer of
           Inl err \<Rightarrow> Inl err
         | Inr (ContextDialer contextDialer) \<Rightarrow> Inr contextDialer
         | Inr (PlainDialer d) \<Rightarrow> Inl (Error ''failed to convert to ContextDialer''))"

definition getHTTPClient :: "env \<Rightarrow> WeChatCorpAccount \<Rightarrow> http_Client" where
  "getHTTPClient e c =
     (let client = \<lparr>Timeout = 15 * Second, Transport = DefaultTransport\<rparr>
      in if ProxyURL c = '''' then client
         else case url_Parse e (ProxyURL c) of
                Inl err \<Rightarrow> client
              | Inr proxyURL \<Rightarrow>
                  if strings_HasPrefix (strings_ToLower e (ProxyURL c)) ''socks5://''
                  then (case createSOCKS5Dialer e proxyURL of
                          Inl err \<Rightarrow> client
                        | Inr dialer \<Rightarrow> client\<lparr>Transport := DialContextTransport dialer\<rparr>)
                  else client\<lparr>Transport := ProxyTransport proxyURL\<rparr>)"

text \<open>
  \<^verbatim>\<open>refreshAccessToken\<close> returns \<^verbatim>\<open>(token, expiresAt, err)\<close>. The GET is logged when it is
  sent, whatever comes back.
\<close>

definition refreshAccessToken :: "env \<Rightarrow> WeChatCorpAccount \<Rightarrow> world \<Rightarrow> (string \<times> Time \<times> error option) \<times> world" where
  "refreshAccessToken e c w =
     (let client = getHTTPClient e c;
          reqURL = token_endpoint @ url_QueryEscape e (CorpID c) @ ''&corpsecret=''
                     @ url_QueryEscape e (AgentSecret c);
          w1 = w\<lparr>net_log := net_log w @ [HttpGet client reqURL]\<rparr>
      in case client_Get e client reqURL of
           Inl err \<Rightarrow> (('''', Time_zero, Some err), w1)
         | Inr resp \<Rightarrow>
             (case io_ReadAll resp of
                Inl err \<Rightarrow> (('''', Time_zero, Some err), w1)
              | Inr body \<Rightarrow>
                  (case json_Unmarshal_token e body of
                     Inl err \<Rightarrow> (('''', Time_zero, Some err), w1)
                   | Inr res \<Rightarrow>
                       if tok_ErrCode res \<noteq> 0
                       then (('''', Time_zero, Some (Error (tok_ErrMsg res))), w1)
                       else if AccessToken res = '''' \<or> ExpiresIn res \<le> 0
                       then (('''', Time_zero, Some (Error msg_token_invalid)), w1)
                       else
                         let expiresAt =
                               Time_Add
                                 (Time_Add (now_refreshAccessToken e)
                                    (Duration_mul (ExpiresIn res) Second))
                                 (- 60 * Second)
                         in ((AccessToken res, expiresAt, None), w1))))"

definition GetAccessToken :: "env \<Rightarrow> WeChatCorpAccount \<Rightarrow> world \<Rightarrow> (string \<times> error option) \<times> world" where
  "GetAccessToken e c w =
     (if CorpID c = '''' \<or> AgentSecret c = ''''
      then (('''', Some (Error msg_param_missing)), w)
      else
        let key = cacheKey c;
            now = now_GetAccessToken e;
            (item, ok) = map_index (wechatCorpTokenCache w) key
        in if ok \<and> token item \<noteq> '''' \<and> Time_Before now (expiresAt item)
           then ((token item, None), w)
           else
             (case refreshAccessToken e c w of
                ((tok, exp, Some err), w1) \<Rightarrow> (('''', Some err), w1)
              | ((tok, exp, None), w1) \<Rightarrow>
                  ((tok, None),
                   w1\<lparr>wechatCorpTokenCache :=
                        (wechatCorpTokenCache w1)(key \<mapsto> \<lparr>token = tok, expiresAt = exp\<rparr>)\<rparr>)))"

definition send :: "env \<Rightarrow> WeChatCorpAccount \<Rightarrow> wechatCorpSendRequest \<Rightarrow> world \<Rightarrow> (string \<times> error option) \<times> world" where
  "send e c req w =
     (if ToUser req = '''' then (('''', Some (Error msg_empty_receiver)), w)
      else if AgentID c \<le> 0 then (('''', Some (Error msg_bad_agentid)), w)
      else
        (case GetAccessToken e c w of
           ((tok, Some err), w1) \<Rightarrow> (('''', Some err), w1)
         | ((tok, None), w1) \<Rightarrow>
             (case json_Marshal e req of
                Inl err \<Rightarrow> (('''', Some err), w1)
              | Inr b \<Rightarrow>
                  (let client = getHTTPClient e c;
                       apiURL = send_endpoint @ url_QueryEscape e tok;
                       w2 = w1\<lparr>net_log := net_log w1 @ [HttpPost client apiURL ''application/json'' b]\<rparr>
                   in (case client_Post e client apiURL ''application/json'' b of
                         Inl err \<Rightarrow> (('''', Some err), w2)
                       | Inr resp \<Rightarrow>
                           (case io_ReadAll resp of
                              Inl err \<Rightarrow> (('''', Some err), w2)
                            | Inr body \<Rightarrow>
                                (case json_Unmarshal_send e body of
                                   Inl err \<Rightarrow> ((body, Some err), w2)
                                 | Inr res \<Rightarrow>
                                     if ErrCode res \<noteq> 0
                                     then if InvalidUser res \<noteq> ''''
                                          then ((body, Some (Error (ErrMsg res @ '' (invaliduser=''
                                                   @ InvalidUser res @ '')''))), w2)
                                          else ((body, Some (Error (ErrMsg res))), w2)
                                     else ((body, None), w2))))))))"

definition SendText :: "env \<Rightarrow> WeChatCorpAccount \<Rightarrow> string \<Rightarrow> string \<Rightarrow> world \<Rightarrow> (string \<times> error option) \<times> world" where
  "SendText e c toUser content w =
     send e c \<lparr>ToUser = toUser, MsgType = ''text'', req_AgentID = AgentID c, Safe = 0,
               Text = Some content, Markdown = None, TextCard = None\<rparr> w"

definition SendMarkdown :: "env \<Rightarrow> WeChatCorpAccount \<Rightarrow> string \<Rightarrow> string \<Rightarrow> world \<Rightarrow> (string \<times> error option) \<times> world" where
  "SendMarkdown e c toUser content w =
     send e c \<lparr>ToUser = toUser, MsgType = ''markdown'', req_AgentID = AgentID c, Safe = 0,
               Text = None, Markdown = Some content, TextCard = None\<rparr> w"

definition SendTextCard :: "env \<Rightarrow> WeChatCorpAccount \<Rightarrow> string \<Rightarrow> string \<Rightarrow> string \<Rightarrow> string \<Rightarrow> world \<Rightarrow> (string \<times> error option) \<times> world" where
  "SendTextCard e c toUser title description linkURL w =
     send e c \<lparr>ToUser = toUser, MsgType = ''textcard'', req_AgentID = AgentID c, Safe = 0,
               Text = None, Markdown = None,
               TextCard = Some \<lparr>card_Title = title, card_Description = description,
                                card_URL = linkURL\<rparr>\<rparr> w"

section \<open>The channel dispatcher (package channels)\<close>

text \<open>
  Modelled from the spec: the type \<^verbatim>\<open>UnifiedMessageContent\<close> and its methods
  \<^verbatim>\<open>IsAtAll\<close> and \<^verbatim>\<open>GetAtUserIds\<close> are declared in a file of the repository that is not
  among the sources. Section 3 of the spec gives the content a title, a body, a URL, the
  flag \<open>mentionAll\<close> and the ordered sequence \<open>mentionUserIDs\<close>; the two methods read
  the last two. The source reads the fields \<^verbatim>\<open>Title\<close> and \<^verbatim>\<open>URL\<close> directly.
\<close>

record UnifiedMessageContent =
  Title :: string
  content_body :: string
  URL :: string
  mentionAll :: bool
  mentionUserIDs :: "string list"

definition IsAtAll :: "UnifiedMessageContent \<Rightarrow> bool" where
  "IsAtAll content = mentionAll content"

definition GetAtUserIds :: "UnifiedMessageContent \<Rightarrow> string list" where
  "GetAtUserIds content = mentionUserIDs content"

text \<open>
  Modelled from the spec: the constants \<^verbatim>\<open>FormatTypeMarkdown\<close> and \<^verbatim>\<open>FormatTypeText\<close>
  are declared outside the sources; the spec names the two format kinds of this channel
  \<open>markdown\<close> and \<open>text\<close>.
\<close>

definition FormatTypeMarkdown :: string where
  "FormatTypeMarkdown = ''markdown''"

definition FormatTypeText :: string where
  "FormatTypeText = ''text''"

text \<open>
  The first argument of \<^verbatim>\<open>SendUnified\<close> has the empty interface type; the source asserts
  that it is a pointer to a \<^verbatim>\<open>WayDetailWeChatCorpAccount\<close>. The validation collaborator
  returns a value of the empty interface type as well, asserted to be an
  \<^verbatim>\<open>InsWeChatCorpAccountConfig\<close>. Both are a datatype with one constructor for the
  expected dynamic type and one for any other. The callers hand over constructed objects
  (spec, section 1), so the pointers are not nil.
\<close>

record WayDetailWeChatCorpAccount =
  way_CorpID :: string
  way_AgentID :: int
  way_AgentSecret :: string
  way_ProxyURL :: string

datatype msgObj = WayDetailWeChatCorpAccount_ptr WayDetailWeChatCorpAccount | other_msgObj

record InsWeChatCorpAccountConfig =
  ToAccount :: string

datatype configInterface = InsWeChatCorpAccountConfig_value InsWeChatCorpAccountConfig | other_config

text \<open>
  The two collaborators of the dispatcher that live outside the sources are parameters:
  \<^verbatim>\<open>ValidateDiffIns\<close> of the instance service, which returns \<^verbatim>\<open>(errStr, config)\<close>, and
  \<^verbatim>\<open>FormatContent\<close> of the base channel, which returns
  \<^verbatim>\<open>(contentType, formattedContent, err)\<close>. The task instance is opaque.
\<close>

record 'ins collaborators =
  ValidateDiffIns :: "'ins \<Rightarrow> string \<times> configInterface"
  FormatContent :: "UnifiedMessageContent \<Rightarrow> string \<times> string \<times> error option"

text \<open>Lines 39 to 47 of \<^verbatim>\<open>SendUnified\<close>: the recipient.\<close>

definition SendUnified_toUser :: "InsWeChatCorpAccountConfig \<Rightarrow> UnifiedMessageContent \<Rightarrow> string" where
  "SendUnified_toUser config content =
     (let toUser = ToAccount config
      in if IsAtAll content then ''@all''
         else
           let atUserIds = GetAtUserIds content
           in if length atUserIds > 0 then strings_Join atUserIds ''|'' else toUser)"

text \<open>Lines 49 to 54 of \<^verbatim>\<open>SendUnified\<close>: the client, built from the auth object.\<close>

definition SendUnified_cli :: "WayDetailWeChatCorpAccount \<Rightarrow> WeChatCorpAccount" where
  "SendUnified_cli auth =
     \<lparr>CorpID = way_CorpID auth, AgentID = way_AgentID auth, AgentSecret = way_AgentSecret auth,
      ProxyURL = way_ProxyURL auth\<rparr>"

text \<open>Lines 70 to 74 of \<^verbatim>\<open>SendUnified\<close>: the result pair from the client's answer.\<close>

definition SendUnified_result :: "(string \<times> error option) \<times> world \<Rightarrow> (string \<times> string) \<times> world" where
  "SendUnified_result r =
     (case r of
        ((res, sendErr), w1) \<Rightarrow>
          (let errMsg = (case sendErr of
                           None \<Rightarrow> ''''
                         | Some err \<Rightarrow> msg_send_failed @ Error_msg err)
           in ((res, errMsg), w1)))"

text \<open>Lines 56 to 74 of \<^verbatim>\<open>SendUnified\<close>: the branch on the content type.\<close>

definition SendUnified_dispatch :: "env \<Rightarrow> WeChatCorpAccount \<Rightarrow> string \<Rightarrow> string \<Rightarrow> UnifiedMessageContent \<Rightarrow> string \<Rightarrow> world \<Rightarrow> (string \<times> string) \<times> world" where
  "SendUnified_dispatch e cli contentType formattedContent content toUser w =
     SendUnified_result
       (if contentType = FormatTypeMarkdown
        then SendMarkdown e cli toUser formattedContent w
        else if contentType = FormatTypeText
        then if Title content \<noteq> '''' \<and> URL content \<noteq> ''''
             then SendTextCard e cli toUser (Title content) formattedContent (URL content) w
             else SendText e cli toUser formattedContent w
        else (('''', Some (Error (msg_unknown_kind @ contentType))), w))"

definition SendUnified :: "'ins collaborators \<Rightarrow> env \<Rightarrow> msgObj \<Rightarrow> 'ins \<Rightarrow> UnifiedMessageContent \<Rightarrow> world \<Rightarrow> (string \<times> string) \<times> world" where
  "SendUnified k e msgObj ins content w =
     (case msgObj of
        other_msgObj \<Rightarrow> (('''', msg_type_assert), w)
      | WayDetailWeChatCorpAccount_ptr auth \<Rightarrow>
          (let (errStr, configInterface) = ValidateDiffIns k ins
           in if errStr \<noteq> '''' then ((errStr, ''''), w)
              else
                (case configInterface of
                   other_config \<Rightarrow> ((msg_config_check, ''''), w)
                 | InsWeChatCorpAccountConfig_value config \<Rightarrow>
                     (case FormatContent k content of
                        (contentType, formattedContent, Some err) \<Rightarrow> (('''', Error_msg err), w)
                      | (contentType, formattedContent, None) \<Rightarrow>
                          (let toUser = SendUnified_toUser config content;
                               cli = SendUnified_cli auth
                           in SendUnified_dispatch e cli contentType formattedContent content
                                toUser w)))))"

section \<open>Reachable states and example inputs\<close>

text \<open>
  The line-85 test of \<^verbatim>\<open>GetAccessToken\<close>: the cache holds a usable entry for the
  account at the time the function reads the clock.
\<close>

definition cache_hit :: "env \<Rightarrow> WeChatCorpAccount \<Rightarrow> world \<Rightarrow> bool" where
  "cache_hit e c w =
     (case map_index (wechatCorpTokenCache w) (cacheKey c) of
        (item, ok) \<Rightarrow> ok \<and> token item \<noteq> '''' \<and> Time_Before (now_GetAccessToken e) (expiresAt item))"

text \<open>
  The process starts with the empty map (line 59); only \<^verbatim>\<open>GetAccessToken\<close> writes to it,
  called directly or through \<^verbatim>\<open>send\<close>. A state is reachable when some sequence of such
  calls, each in an environment of its own, leads to it.
\<close>

inductive reachable :: "world \<Rightarrow> bool" where
  init: "reachable init_world"
| GetAccessToken: "reachable w \<Longrightarrow> reachable (snd (GetAccessToken e c w))"
| send: "reachable w \<Longrightarrow> reachable (snd (send e c req w))"

definition cache_inv :: "world \<Rightarrow> bool" where
  "cache_inv w \<longleftrightarrow> (\<forall>key item. wechatCorpTokenCache w key = Some item \<longrightarrow> token item \<noteq> '''')"

text \<open>
  Example inputs for the closed instances below. The example provider answers every token
  request with the token \<open>T1\<close> and 7200 seconds, and every send with error code 0.
\<close>

definition env_example :: env where
  "env_example =
     \<lparr>now_GetAccessToken = 1000 * Second,
      now_refreshAccessToken = 1001 * Second,
      client_Get = (\<lambda>client u. Inr \<lparr>Body = Inr ''token-json''\<rparr>),
      client_Post = (\<lambda>client u contentType b. Inr \<lparr>Body = Inr ''send-json''\<rparr>),
      json_Unmarshal_token =
        (\<lambda>b. Inr \<lparr>tok_ErrCode = 0, tok_ErrMsg = ''ok'', AccessToken = ''T1'', ExpiresIn = 7200\<rparr>),
      json_Unmarshal_send = (\<lambda>b. Inr \<lparr>ErrCode = 0, ErrMsg = ''ok'', InvalidUser = ''''\<rparr>),
      json_Marshal = (\<lambda>req. Inr (MsgType req @ '':'' @ ToUser req)),
      url_QueryEscape = (\<lambda>s. s),
      url_Parse = (\<lambda>s. Inr \<lparr>Scheme = ''socks5'', User = None, Host = ''127.0.0.1:1080'', Path = ''''\<rparr>),
      strings_ToLower = (\<lambda>s. s),
      proxy_SOCKS5 =
        (\<lambda>network address auth forward.
           Inr (ContextDialer \<lparr>socks_network = network, socks_address = address,
                               socks_auth = auth, socks_forward = forward\<rparr>))\<rparr>"

definition account_example :: WeChatCorpAccount where
  "account_example = \<lparr>CorpID = ''corp'', AgentID = 7, AgentSecret = ''secret'', ProxyURL = ''''\<rparr>"

definition way_example :: WayDetailWeChatCorpAccount where
  "way_example =
     \<lparr>way_CorpID = ''corp'', way_AgentID = 7, way_AgentSecret = ''secret'', way_ProxyURL = ''''\<rparr>"

definition content_example :: UnifiedMessageContent where
  "content_example =
     \<lparr>Title = ''Alert'', content_body = ''disk full'', URL = ''http://x'', mentionAll = False,
      mentionUserIDs = [''u1'', ''u2'']\<rparr>"

definition collaborators_example :: "unit collaborators" where
  "collaborators_example =
     \<lparr>ValidateDiffIns = (\<lambda>ins. ('''', InsWeChatCorpAccountConfig_value \<lparr>ToAccount = ''ops''\<rparr>)),
      FormatContent = (\<lambda>content. (''text'', content_body content, None))\<rparr>"

definition request_example :: wechatCorpSendRequest where
  "request_example =
     \<lparr>ToUser = ''u9'', MsgType = ''text'', req_AgentID = 7, Safe = 0, Text = Some ''hello'',
      Markdown = None, TextCard = None\<rparr>"

text \<open>A gateway answers the POST with a page that is not JSON.\<close>

definition env_bad_json :: env where
  "env_bad_json =
     env_example
       \<lparr>client_Post := (\<lambda>client u contentType b. Inr \<lparr>Body = Inr ''<html>502</html>''\<rparr>),
        json_Unmarshal_send := (\<lambda>b. Inl (Error ''invalid character <''))\<rparr>"

text \<open>The provider rejects the recipient.\<close>

definition env_invalid_user :: env where
  "env_invalid_user =
     env_example
       \<lparr>json_Unmarshal_send :=
          (\<lambda>b. Inr \<lparr>ErrCode = 81013, ErrMsg = ''user invalid'', InvalidUser = ''u9''\<rparr>)\<rparr>"

text \<open>An HTTP forward proxy, and a proxy URL that does not parse.\<close>

definition env_http_proxy :: env where
  "env_http_proxy =
     env_example
       \<lparr>url_Parse :=
          (\<lambda>s. Inr \<lparr>Scheme = ''http'', User = None, Host = ''10.0.0.1:3128'', Path = ''''\<rparr>)\<rparr>"

definition env_bad_proxy :: env where
  "env_bad_proxy = env_example\<lparr>url_Parse := (\<lambda>s. Inl (Error ''missing protocol scheme''))\<rparr>"

text \<open>Provider answers to the token request: a huge lifetime, an error code, a zero lifetime.\<close>

definition env_huge_ttl :: env where
  "env_huge_ttl =
     env_example
       \<lparr>json_Unmarshal_token :=
          (\<lambda>b. Inr \<lparr>tok_ErrCode = 0, tok_ErrMsg = ''ok'', AccessToken = ''T1'',
                     ExpiresIn = 10000000000\<rparr>)\<rparr>"

definition env_provider_error :: env where
  "env_provider_error =
     env_example
       \<lparr>json_Unmarshal_token :=
          (\<lambda>b. Inr \<lparr>tok_ErrCode = 40013, tok_ErrMsg = ''invalid corpid'', AccessToken = '''',
                     ExpiresIn = 0\<rparr>)\<rparr>"

definition env_zero_ttl :: env where
  "env_zero_ttl =
     env_example
       \<lparr>json_Unmarshal_token :=
          (\<lambda>b. Inr \<lparr>tok_ErrCode = 0, tok_ErrMsg = ''ok'', AccessToken = ''T1'', ExpiresIn = 0\<rparr>)\<rparr>"

text \<open>
  Two later calls: one while the token of the example is still valid, one after its
  expiry, when the provider issues the token \<open>T2\<close>. The second account has the identity
  fields of the example and another proxy.
\<close>

definition env_later :: env where
  "env_later = env_example\<lparr>now_GetAccessToken := 5000 * Second\<rparr>"

definition env_after_expiry :: env where
  "env_after_expiry =
     env_example
       \<lparr>now_GetAccessToken := 9000 * Second,
        now_refreshAccessToken := 9001 * Second,
        json_Unmarshal_token :=
          (\<lambda>b. Inr \<lparr>tok_ErrCode = 0, tok_ErrMsg = ''ok'', AccessToken = ''T2'', ExpiresIn = 7200\<rparr>)\<rparr>"

definition account_via_proxy :: WeChatCorpAccount where
  "account_via_proxy = account_example\<lparr>ProxyURL := ''socks5://127.0.0.1:1080''\<rparr>"

definition world_with_token :: world where
  "world_with_token = snd (GetAccessToken env_example account_example init_world)"

text \<open>Collaborators: a failing validation, and negotiations ending in other format kinds.\<close>

definition collaborators_invalid :: "unit collaborators" where
  "collaborators_invalid =
     collaborators_example\<lparr>ValidateDiffIns := (\<lambda>ins. (''to_account is empty'', other_config))\<rparr>"

definition collaborators_markdown :: "unit collaborators" where
  "collaborators_markdown =
     collaborators_example\<lparr>FormatContent := (\<lambda>content. (''markdown'', content_body content, None))\<rparr>"

definition collaborators_html :: "unit collaborators" where
  "collaborators_html =
     collaborators_example\<lparr>FormatContent := (\<lambda>content. (''html'', content_body content, None))\<rparr>"

text \<open>The bodies of the POST requests in the log of a state, oldest first.\<close>

definition posted :: "world \<Rightarrow> string list" where
  "posted w =
     concat (map (\<lambda>ev. case ev of HttpGet client u \<Rightarrow> [] | HttpPost client u t b \<Rightarrow> [b])
       (net_log w))"

section \<open>Verified properties\<close>

subsection \<open>Shared lemmas about \<^verbatim>\<open>send\<close>\<close>

lemma send_precondition:
  assumes "ToUser req = '''' \<or> AgentID c \<le> 0"
  shows "send e c req w =
           (('''', Some (Error (if ToUser req = '''' then msg_empty_receiver else msg_bad_agentid))), w)"
  using assms by (auto simp: send_def)

lemma send_after_post:
  assumes "ToUser req \<noteq> ''''" and "0 < AgentID c"
    and "GetAccessToken e c w = ((tok, None), w1)"
    and "json_Marshal e req = Inr b"
    and "client_Post e (getHTTPClient e c) (send_endpoint @ url_QueryEscape e tok)
           ''application/json'' b = Inr resp"
    and "io_ReadAll resp = Inr body"
  shows "fst (send e c req w) =
           (case json_Unmarshal_send e body of
              Inl err \<Rightarrow> (body, Some err)
            | Inr res \<Rightarrow>
                if ErrCode res \<noteq> 0
                then if InvalidUser res \<noteq> ''''
                     then (body, Some (Error (ErrMsg res @ '' (invaliduser='' @ InvalidUser res @ '')'')))
                     else (body, Some (Error (ErrMsg res)))
                else (body, None))"
  using assms by (simp add: send_def Let_def split: sum.splits)

lemma GetAccessToken_example:
  "fst (GetAccessToken (env_example\<lparr>client_Post := p, json_Unmarshal_send := u\<rparr>)
          account_example init_world) = (''T1'', None)"
  by (simp add: GetAccessToken_def refreshAccessToken_def env_example_def account_example_def
      init_world_def map_index_def io_ReadAll_def Let_def)

subsection \<open>Preconditions of the three send operations\<close>

text \<open>
  C6. Each of \<^verbatim>\<open>SendText\<close>, \<^verbatim>\<open>SendMarkdown\<close> and \<^verbatim>\<open>SendTextCard\<close>, called with an
  empty recipient or with an account whose \<^verbatim>\<open>AgentID\<close> is not positive, returns the empty
  body with a validation error and leaves the state as it was: no request is added to
  the log and the cache is untouched. The result does not mention the environment, so
  neither the clock nor the network is consulted.
\<close>

theorem send_validation_before_network:
  assumes "toUser = '''' \<or> AgentID c \<le> 0"
  shows "let failure = (('''', Some (Error (if toUser = '''' then msg_empty_receiver
                                            else msg_bad_agentid))), w)
         in SendText e c toUser content w = failure
          \<and> SendMarkdown e c toUser content w = failure
          \<and> SendTextCard e c toUser title description linkURL w = failure"
  using assms by (simp add: SendText_def SendMarkdown_def SendTextCard_def send_precondition)

theorem send_validation_before_network_witness:
  "SendText env_example (account_example\<lparr>AgentID := 0\<rparr>) ''u1'' ''hello'' init_world
     = (('''', Some (Error msg_bad_agentid)), init_world)
   \<and> SendMarkdown env_example account_example '''' ''hello'' init_world
     = (('''', Some (Error msg_empty_receiver)), init_world)
   \<and> SendTextCard env_example (account_example\<lparr>AgentID := - 3\<rparr>) ''u1'' ''t'' ''d'' ''http://x''
        init_world
     = (('''', Some (Error msg_bad_agentid)), init_world)"
  using send_validation_before_network [of "''u1''" "account_example\<lparr>AgentID := 0\<rparr>"
      init_world env_example "''hello''" "''t''" "''d''" "''http://x''"]
    send_validation_before_network [of "''''" "account_example"
      init_world env_example "''hello''" "''t''" "''d''" "''http://x''"]
    send_validation_before_network [of "''u1''" "account_example\<lparr>AgentID := - 3\<rparr>"
      init_world env_example "''hello''" "''t''" "''d''" "''http://x''"]
  by (simp add: Let_def)

subsection \<open>The provider's answer to a send\<close>

text \<open>
  C8. When the request has passed the preconditions, a token was obtained, the POST was
  answered and the answer parses: a non-zero error code makes \<^verbatim>\<open>send\<close> return the raw
  body together with an error whose message is the provider's \<^verbatim>\<open>errmsg\<close>, followed by
  \<^verbatim>\<open>(invaliduser=...)\<close> when that field is populated; error code zero makes it return the
  raw body and no error.
\<close>

theorem send_provider_error_code:
  assumes "ToUser req \<noteq> ''''" and "0 < AgentID c"
    and "GetAccessToken e c w = ((tok, None), w1)"
    and "json_Marshal e req = Inr b"
    and "client_Post e (getHTTPClient e c) (send_endpoint @ url_QueryEscape e tok)
           ''application/json'' b = Inr resp"
    and "io_ReadAll resp = Inr body"
    and "json_Unmarshal_send e body = Inr res"
  shows "(ErrCode res \<noteq> 0 \<and> InvalidUser res \<noteq> '''' \<longrightarrow>
            fst (send e c req w) =
              (body, Some (Error (ErrMsg res @ '' (invaliduser='' @ InvalidUser res @ '')''))))
       \<and> (ErrCode res \<noteq> 0 \<and> InvalidUser res = '''' \<longrightarrow>
            fst (send e c req w) = (body, Some (Error (ErrMsg res))))
       \<and> (ErrCode res = 0 \<longrightarrow> fst (send e c req w) = (body, None))"
  using send_after_post [OF assms(1-6)] assms(7) by simp

theorem send_provider_error_code_witness:
  "fst (send env_invalid_user account_example request_example init_world)
     = (''send-json'', Some (Error ''user invalid (invaliduser=u9)''))
   \<and> fst (send env_example account_example request_example init_world) = (''send-json'', None)"
proof -
  have tok: "GetAccessToken env_invalid_user account_example init_world
          = ((''T1'', None), snd (GetAccessToken env_invalid_user account_example init_world))"
    using GetAccessToken_example [where p = "client_Post env_example"]
    unfolding env_invalid_user_def by (simp add: prod_eq_iff)
  have tok': "GetAccessToken env_example account_example init_world
          = ((''T1'', None), snd (GetAccessToken env_example account_example init_world))"
    using GetAccessToken_example [where p = "client_Post env_example"
        and u = "json_Unmarshal_send env_example"]
    by (simp add: prod_eq_iff)
  have "fst (send env_invalid_user account_example request_example init_world)
     = (''send-json'', Some (Error ''user invalid (invaliduser=u9)''))"
    using send_provider_error_code [OF _ _ tok, of request_example "''text:u9''"
        "\<lparr>Body = Inr ''send-json''\<rparr>" "''send-json''"
        "\<lparr>ErrCode = 81013, ErrMsg = ''user invalid'', InvalidUser = ''u9''\<rparr>"]
    by (simp add: request_example_def account_example_def env_invalid_user_def env_example_def
        io_ReadAll_def)
  moreover have "fst (send env_example account_example request_example init_world)
     = (''send-json'', None)"
    using send_provider_error_code [OF _ _ tok', of request_example "''text:u9''"
        "\<lparr>Body = Inr ''send-json''\<rparr>" "''send-json''"
        "\<lparr>ErrCode = 0, ErrMsg = ''ok'', InvalidUser = ''''\<rparr>"]
    by (simp add: request_example_def account_example_def env_example_def io_ReadAll_def)
  ultimately show ?thesis by simp
qed

text \<open>
  C10. When the answer to the POST does not parse, \<^verbatim>\<open>send\<close> returns the raw body as its
  first component, with the error of \<^verbatim>\<open>json.Unmarshal\<close> as the second.
\<close>

theorem send_parse_failure_keeps_body:
  assumes "ToUser req \<noteq> ''''" and "0 < AgentID c"
    and "GetAccessToken e c w = ((tok, None), w1)"
    and "json_Marshal e req = Inr b"
    and "client_Post e (getHTTPClient e c) (send_endpoint @ url_QueryEscape e tok)
           ''application/json'' b = Inr resp"
    and "io_ReadAll resp = Inr body"
    and "json_Unmarshal_send e body = Inl err"
  shows "fst (send e c req w) = (body, Some err)"
  using send_after_post [OF assms(1-6)] assms(7) by simp

theorem send_parse_failure_keeps_body_witness:
  "fst (send env_bad_json account_example request_example init_world)
     = (''<html>502</html>'', Some (Error ''invalid character <''))"
proof (rule send_parse_failure_keeps_body)
  show "ToUser request_example \<noteq> ''''" by (simp add: request_example_def)
  show "0 < AgentID account_example" by (simp add: account_example_def)
  show "GetAccessToken env_bad_json account_example init_world
          = ((''T1'', None), snd (GetAccessToken env_bad_json account_example init_world))"
    using GetAccessToken_example unfolding env_bad_json_def by (simp add: prod_eq_iff)
  show "json_Marshal env_bad_json request_example = Inr ''text:u9''"
    by (simp add: env_bad_json_def env_example_def request_example_def)
  show "client_Post env_bad_json (getHTTPClient env_bad_json account_example)
          (send_endpoint @ url_QueryEscape env_bad_json ''T1'') ''application/json'' ''text:u9''
          = Inr \<lparr>Body = Inr ''<html>502</html>''\<rparr>"
    by (simp add: env_bad_json_def)
  show "io_ReadAll \<lparr>Body = Inr ''<html>502</html>''\<rparr> = Inr ''<html>502</html>''"
    by (simp add: io_ReadAll_def)
  show "json_Unmarshal_send env_bad_json ''<html>502</html>'' = Inl (Error ''invalid character <'')"
    by (simp add: env_bad_json_def)
qed

subsection \<open>Transport selection\<close>

text \<open>
  C9. \<^verbatim>\<open>getHTTPClient\<close> always returns a client, and its timeout is 15 seconds. The
  transport is the default, direct one for the empty proxy URL; a SOCKS5-dialing one when
  the URL parses, its lower-case form starts with \<^verbatim>\<open>socks5://\<close> and the dialer can be
  built; a forward proxy for any other URL that parses; and the default one again when
  the URL does not parse or the dialer cannot be built.
\<close>

theorem getHTTPClient_policy:
  "Timeout (getHTTPClient e c) = 15 * Second
   \<and> (ProxyURL c = '''' \<longrightarrow> Transport (getHTTPClient e c) = DefaultTransport)
   \<and> (\<forall>proxyURL dialer.
         ProxyURL c \<noteq> '''' \<and> url_Parse e (ProxyURL c) = Inr proxyURL
         \<and> strings_HasPrefix (strings_ToLower e (ProxyURL c)) ''socks5://''
         \<and> createSOCKS5Dialer e proxyURL = Inr dialer
         \<longrightarrow> Transport (getHTTPClient e c) = DialContextTransport dialer)
   \<and> (\<forall>proxyURL.
         ProxyURL c \<noteq> '''' \<and> url_Parse e (ProxyURL c) = Inr proxyURL
         \<and> \<not> strings_HasPrefix (strings_ToLower e (ProxyURL c)) ''socks5://''
         \<longrightarrow> Transport (getHTTPClient e c) = ProxyTransport proxyURL)
   \<and> (\<forall>err. url_Parse e (ProxyURL c) = Inl err
         \<longrightarrow> Transport (getHTTPClient e c) = DefaultTransport)
   \<and> (\<forall>proxyURL err.
         url_Parse e (ProxyURL c) = Inr proxyURL
         \<and> strings_HasPrefix (strings_ToLower e (ProxyURL c)) ''socks5://''
         \<and> createSOCKS5Dialer e proxyURL = Inl err
         \<longrightarrow> Transport (getHTTPClient e c) = DefaultTransport)"
  by (simp add: getHTTPClient_def Let_def split: sum.splits)

theorem getHTTPClient_policy_witness:
  "getHTTPClient env_example (account_example\<lparr>ProxyURL := ''socks5://127.0.0.1:1080''\<rparr>)
     = \<lparr>Timeout = 15 * Second,
        Transport = DialContextTransport
          \<lparr>socks_network = ''tcp'', socks_address = ''127.0.0.1:1080'', socks_auth = None,
           socks_forward = \<lparr>dial_Timeout = 30 * Second, dial_KeepAlive = 30 * Second\<rparr>\<rparr>\<rparr>
   \<and> getHTTPClient env_example account_example
     = \<lparr>Timeout = 15 * Second, Transport = DefaultTransport\<rparr>
   \<and> getHTTPClient env_http_proxy (account_example\<lparr>ProxyURL := ''http://10.0.0.1:3128''\<rparr>)
     = \<lparr>Timeout = 15 * Second,
        Transport = ProxyTransport
          \<lparr>Scheme = ''http'', User = None, Host = ''10.0.0.1:3128'', Path = ''''\<rparr>\<rparr>
   \<and> getHTTPClient env_bad_proxy (account_example\<lparr>ProxyURL := '':bad''\<rparr>)
     = \<lparr>Timeout = 15 * Second, Transport = DefaultTransport\<rparr>"
  using getHTTPClient_policy [of env_example
      "account_example\<lparr>ProxyURL := ''socks5://127.0.0.1:1080''\<rparr>"]
    getHTTPClient_policy [of env_example account_example]
    getHTTPClient_policy [of env_http_proxy
      "account_example\<lparr>ProxyURL := ''http://10.0.0.1:3128''\<rparr>"]
    getHTTPClient_policy [of env_bad_proxy "account_example\<lparr>ProxyURL := '':bad''\<rparr>"]
  by (simp add: env_example_def env_http_proxy_def env_bad_proxy_def account_example_def
      createSOCKS5Dialer_def Let_def)

subsection \<open>The cache key\<close>

lemma digit_char_values:
  "digit_char 0 = CHR ''0''" "digit_char 1 = CHR ''1''" "digit_char 2 = CHR ''2''"
  "digit_char 3 = CHR ''3''" "digit_char 4 = CHR ''4''" "digit_char 5 = CHR ''5''"
  "digit_char 6 = CHR ''6''" "digit_char 7 = CHR ''7''" "digit_char 8 = CHR ''8''"
  "digit_char 9 = CHR ''9''" "digit_char (Suc 0) = CHR ''1''"
  by code_simp+

lemma cacheKey_examples:
  "cacheKey account_example = ''corp|7|secret''"
  "cacheKey (account_example\<lparr>AgentID := 1000002\<rparr>) = ''corp|1000002|secret''"
  "cacheKey (account_example\<lparr>AgentID := - 41\<rparr>) = ''corp|-41|secret''"
  by (simp_all add: cacheKey_def account_example_def Sprintf_d_def digits_of_nat.simps
      digit_char_values)

lemma cacheKey_cong:
  assumes "CorpID c2 = CorpID c1" and "AgentID c2 = AgentID c1" and "AgentSecret c2 = AgentSecret c1"
  shows "cacheKey c2 = cacheKey c1"
  using assms by (simp add: cacheKey_def)

subsection \<open>Shared lemmas about the token cache\<close>

lemma refreshAccessToken_world:
  "snd (refreshAccessToken e c w) =
     w\<lparr>net_log := net_log w @ [HttpGet (getHTTPClient e c)
         (token_endpoint @ url_QueryEscape e (CorpID c) @ ''&corpsecret=''
            @ url_QueryEscape e (AgentSecret c))]\<rparr>"
  by (simp add: refreshAccessToken_def Let_def split: sum.splits)

lemma refreshAccessToken_token_nonempty:
  assumes "fst (refreshAccessToken e c w) = (tok, exp, None)"
  shows "tok \<noteq> ''''"
  using assms by (auto simp: refreshAccessToken_def Let_def split: sum.splits if_splits)

lemma int64_id:
  assumes "- (2 ^ 63) \<le> x" and "x < 2 ^ 63"
  shows "int64 x = x"
  using assms by (simp add: int64_def)

lemma refreshAccessToken_success:
  assumes "client_Get e (getHTTPClient e c)
             (token_endpoint @ url_QueryEscape e (CorpID c) @ ''&corpsecret=''
                @ url_QueryEscape e (AgentSecret c)) = Inr resp"
    and "io_ReadAll resp = Inr body"
    and "json_Unmarshal_token e body = Inr res"
    and "tok_ErrCode res = 0" and "AccessToken res \<noteq> ''''" and "0 < ExpiresIn res"
  shows "fst (refreshAccessToken e c w) =
           (AccessToken res,
            now_refreshAccessToken e + int64 (ExpiresIn res * 1000000000) - 60000000000, None)"
  using assms by (simp add: refreshAccessToken_def Let_def Time_Add_def Duration_mul_def Second_def)

lemma GetAccessToken_hit:
  assumes "CorpID c \<noteq> ''''" and "AgentSecret c \<noteq> ''''"
    and "wechatCorpTokenCache w (cacheKey c) = Some item"
    and "token item \<noteq> ''''" and "now_GetAccessToken e < expiresAt item"
  shows "GetAccessToken e c w = ((token item, None), w)"
  using assms by (simp add: GetAccessToken_def map_index_def Time_Before_def)

lemma GetAccessToken_miss:
  assumes "CorpID c \<noteq> ''''" and "AgentSecret c \<noteq> ''''" and "\<not> cache_hit e c w"
  shows "GetAccessToken e c w =
           (case refreshAccessToken e c w of
              ((tok, exp, Some err), w1) \<Rightarrow> (('''', Some err), w1)
            | ((tok, exp, None), w1) \<Rightarrow>
                ((tok, None),
                 w1\<lparr>wechatCorpTokenCache :=
                      (wechatCorpTokenCache w1)(cacheKey c \<mapsto> \<lparr>token = tok, expiresAt = exp\<rparr>)\<rparr>))"
  using assms
  by (cases "map_index (wechatCorpTokenCache w) (cacheKey c)")
    (auto simp: GetAccessToken_def cache_hit_def Let_def)

lemma GetAccessToken_miss_result:
  assumes "CorpID c \<noteq> ''''" and "AgentSecret c \<noteq> ''''" and "\<not> cache_hit e c w"
    and "fst (refreshAccessToken e c w) = (tok, exp, err)"
  shows "fst (GetAccessToken e c w) = (if err = None then tok else '''', err)"
    and "wechatCorpTokenCache (snd (GetAccessToken e c w)) =
           (if err = None
            then (wechatCorpTokenCache w)(cacheKey c \<mapsto> \<lparr>token = tok, expiresAt = exp\<rparr>)
            else wechatCorpTokenCache w)"
    and "net_log (snd (GetAccessToken e c w)) =
           net_log w @ [HttpGet (getHTTPClient e c)
             (token_endpoint @ url_QueryEscape e (CorpID c) @ ''&corpsecret=''
                @ url_QueryEscape e (AgentSecret c))]"
proof -
  obtain w1 where r: "refreshAccessToken e c w = ((tok, exp, err), w1)"
    using assms(4) by (cases "refreshAccessToken e c w") auto
  have w1: "w1 = w\<lparr>net_log := net_log w @ [HttpGet (getHTTPClient e c)
         (token_endpoint @ url_QueryEscape e (CorpID c) @ ''&corpsecret=''
            @ url_QueryEscape e (AgentSecret c))]\<rparr>"
    using refreshAccessToken_world [of e c w] r by simp
  show "fst (GetAccessToken e c w) = (if err = None then tok else '''', err)"
    using r by (auto simp: GetAccessToken_miss [OF assms(1-3)] split: option.splits)
  show "wechatCorpTokenCache (snd (GetAccessToken e c w)) =
           (if err = None
            then (wechatCorpTokenCache w)(cacheKey c \<mapsto> \<lparr>token = tok, expiresAt = exp\<rparr>)
            else wechatCorpTokenCache w)"
    using r w1 by (auto simp: GetAccessToken_miss [OF assms(1-3)] split: option.splits)
  show "net_log (snd (GetAccessToken e c w)) =
           net_log w @ [HttpGet (getHTTPClient e c)
             (token_endpoint @ url_QueryEscape e (CorpID c) @ ''&corpsecret=''
                @ url_QueryEscape e (AgentSecret c))]"
    using r w1 by (auto simp: GetAccessToken_miss [OF assms(1-3)] split: option.splits)
qed

lemma GetAccessToken_failure_keeps_cache:
  assumes "snd (fst (GetAccessToken e c w)) \<noteq> None"
  shows "wechatCorpTokenCache (snd (GetAccessToken e c w)) = wechatCorpTokenCache w
         \<and> fst (fst (GetAccessToken e c w)) = ''''"
proof (cases "CorpID c = '''' \<or> AgentSecret c = ''''")
  case True
  then show ?thesis by (auto simp: GetAccessToken_def)
next
  case False
  obtain tok exp err w1 where r: "refreshAccessToken e c w = ((tok, exp, err), w1)"
    by (cases "refreshAccessToken e c w") auto
  have w1: "wechatCorpTokenCache w1 = wechatCorpTokenCache w"
    using refreshAccessToken_world [of e c w] r by simp
  show ?thesis
    using assms False r w1
    by (auto simp: GetAccessToken_def Let_def split: prod.splits if_splits option.splits)
qed

text \<open>Every entry of the cache holds a non-empty token, in every reachable state.\<close>

lemma GetAccessToken_cache_inv:
  assumes "cache_inv w"
  shows "cache_inv (snd (GetAccessToken e c w))"
proof -
  obtain tok exp err w1 where r: "refreshAccessToken e c w = ((tok, exp, err), w1)"
    by (cases "refreshAccessToken e c w") auto
  have w1: "wechatCorpTokenCache w1 = wechatCorpTokenCache w"
    using refreshAccessToken_world [of e c w] r by simp
  have ne: "err = None \<Longrightarrow> tok \<noteq> ''''"
    using refreshAccessToken_token_nonempty [of e c w tok exp] r by simp
  show ?thesis
    using assms r w1 ne
    by (auto simp: GetAccessToken_def Let_def cache_inv_def
        split: prod.splits if_splits option.splits)
qed

lemma send_cache:
  "wechatCorpTokenCache (snd (send e c req w)) = wechatCorpTokenCache w
   \<or> wechatCorpTokenCache (snd (send e c req w)) = wechatCorpTokenCache (snd (GetAccessToken e c w))"
  by (auto simp: send_def Let_def split: prod.splits option.splits sum.splits)

lemma reachable_cache_inv:
  assumes "reachable w"
  shows "cache_inv w"
  using assms
proof (induction rule: reachable.induct)
  case init
  show ?case by (simp add: cache_inv_def init_world_def)
next
  case (GetAccessToken w e c)
  from GetAccessToken.IH show ?case by (rule GetAccessToken_cache_inv)
next
  case (send w e c req)
  from send.IH have "cache_inv (snd (GetAccessToken e c w))" by (rule GetAccessToken_cache_inv)
  with send.IH send_cache [of e c req w] show ?case by (auto simp: cache_inv_def)
qed

lemma world_with_token_cache:
  "wechatCorpTokenCache world_with_token (cacheKey account_example)
     = Some \<lparr>token = ''T1'', expiresAt = 8141 * Second\<rparr>"
  by (simp add: world_with_token_def GetAccessToken_def refreshAccessToken_def env_example_def
      account_example_def init_world_def map_index_def io_ReadAll_def Let_def Time_Add_def
      Duration_mul_def Second_def int64_def)

lemma world_with_token_log:
  "net_log world_with_token =
     [HttpGet \<lparr>Timeout = 15 * Second, Transport = DefaultTransport\<rparr>
        ''https://qyapi.weixin.qq.com/cgi-bin/gettoken?corpid=corp&corpsecret=secret'']"
  by (simp add: world_with_token_def GetAccessToken_def refreshAccessToken_def env_example_def
      account_example_def init_world_def map_index_def io_ReadAll_def Let_def getHTTPClient_def
      token_endpoint_def)

subsection \<open>Reuse of a cached token\<close>

text \<open>
  C3. In every reachable state, two accounts with the same \<^verbatim>\<open>CorpID\<close>, \<^verbatim>\<open>AgentID\<close> and
  \<^verbatim>\<open>AgentSecret\<close> (the required two non-empty, whatever their proxy URLs) have the same
  cache key. If the cache holds an entry under that key, then a call of
  \<^verbatim>\<open>GetAccessToken\<close> for either account at a time before the entry's \<^verbatim>\<open>expiresAt\<close>
  returns the entry's token and leaves the state as it was, so no request is sent; a
  call at or after \<^verbatim>\<open>expiresAt\<close> sends exactly one token request and returns what the
  refresh returned, not the cached token.
\<close>

theorem cached_token_reuse:
  assumes "reachable w"
    and "CorpID c2 = CorpID c1" and "AgentID c2 = AgentID c1" and "AgentSecret c2 = AgentSecret c1"
    and "CorpID c1 \<noteq> ''''" and "AgentSecret c1 \<noteq> ''''"
    and "wechatCorpTokenCache w (cacheKey c1) = Some item"
  shows "cacheKey c2 = cacheKey c1
       \<and> (now_GetAccessToken e < expiresAt item \<longrightarrow>
            GetAccessToken e c2 w = ((token item, None), w))
       \<and> (expiresAt item \<le> now_GetAccessToken e \<longrightarrow>
            net_log (snd (GetAccessToken e c2 w)) =
              net_log w @ [HttpGet (getHTTPClient e c2)
                (token_endpoint @ url_QueryEscape e (CorpID c2) @ ''&corpsecret=''
                   @ url_QueryEscape e (AgentSecret c2))]
            \<and> fst (GetAccessToken e c2 w) =
                (case fst (refreshAccessToken e c2 w) of
                   (tok, exp, None) \<Rightarrow> (tok, None)
                 | (tok, exp, Some err) \<Rightarrow> ('''', Some err)))"
proof (intro conjI impI)
  show key: "cacheKey c2 = cacheKey c1"
    using assms(2-4) by (rule cacheKey_cong)
  have c2: "CorpID c2 \<noteq> ''''" "AgentSecret c2 \<noteq> ''''"
    using assms(2,4,5,6) by simp_all
  have item: "wechatCorpTokenCache w (cacheKey c2) = Some item"
    using key assms(7) by simp
  have "cache_inv w"
    using assms(1) by (rule reachable_cache_inv)
  with item have nonempty: "token item \<noteq> ''''"
    by (auto simp: cache_inv_def)
  {
    assume "now_GetAccessToken e < expiresAt item"
    with c2 item nonempty show "GetAccessToken e c2 w = ((token item, None), w)"
      by (rule GetAccessToken_hit)
  }
  {
    assume "expiresAt item \<le> now_GetAccessToken e"
    with item have miss: "\<not> cache_hit e c2 w"
      by (simp add: cache_hit_def map_index_def Time_Before_def)
    obtain tok exp err where r: "fst (refreshAccessToken e c2 w) = (tok, exp, err)"
      by (cases "fst (refreshAccessToken e c2 w)") auto
    show "net_log (snd (GetAccessToken e c2 w)) =
              net_log w @ [HttpGet (getHTTPClient e c2)
                (token_endpoint @ url_QueryEscape e (CorpID c2) @ ''&corpsecret=''
                   @ url_QueryEscape e (AgentSecret c2))]"
      using c2 miss r by (rule GetAccessToken_miss_result(3))
    show "fst (GetAccessToken e c2 w) =
                (case fst (refreshAccessToken e c2 w) of
                   (tok, exp, None) \<Rightarrow> (tok, None)
                 | (tok, exp, Some err) \<Rightarrow> ('''', Some err))"
      using GetAccessToken_miss_result(1) [OF c2 miss r] r by (auto split: option.splits)
  }
qed

theorem cached_token_reuse_witness:
  "cacheKey account_via_proxy = cacheKey account_example
   \<and> GetAccessToken env_later account_via_proxy world_with_token
       = ((''T1'', None), world_with_token)
   \<and> fst (GetAccessToken env_after_expiry account_via_proxy world_with_token) = (''T2'', None)
   \<and> length (net_log (snd (GetAccessToken env_after_expiry account_via_proxy world_with_token)))
       = 2"
proof -
  have reach: "reachable world_with_token"
    unfolding world_with_token_def by (intro reachable.GetAccessToken reachable.init)
  have fields: "CorpID account_via_proxy = CorpID account_example"
    "AgentID account_via_proxy = AgentID account_example"
    "AgentSecret account_via_proxy = AgentSecret account_example"
    "CorpID account_example \<noteq> ''''" "AgentSecret account_example \<noteq> ''''"
    by (simp_all add: account_via_proxy_def account_example_def)
  note use = cached_token_reuse [OF reach fields world_with_token_cache]
  have later: "now_GetAccessToken env_later < expiresAt \<lparr>token = ''T1'', expiresAt = 8141 * Second\<rparr>"
    by (simp add: env_later_def Second_def)
  have expired: "expiresAt \<lparr>token = ''T1'', expiresAt = 8141 * Second\<rparr>
                   \<le> now_GetAccessToken env_after_expiry"
    by (simp add: env_after_expiry_def Second_def)
  have refresh: "fst (refreshAccessToken env_after_expiry account_via_proxy world_with_token)
                   = (''T2'', 9001 * Second + 7140 * Second, None)"
    by (simp add: refreshAccessToken_def env_after_expiry_def env_example_def
      account_via_proxy_def account_example_def io_ReadAll_def Let_def Time_Add_def
      Duration_mul_def Second_def int64_def)
  show ?thesis
    using use [of env_later] use [of env_after_expiry] later expired refresh world_with_token_log
    by simp
qed

subsection \<open>The expiry computed by a refresh\<close>

text \<open>
  C4, as amended. When the provider answers the token request with error code 0, a
  non-empty token and a lifetime of \<^verbatim>\<open>expires_in\<close> seconds with
  \<open>0 < expires_in \<le> 9223372036\<close> (the lifetimes whose nanoseconds fit a 64-bit
  \<^verbatim>\<open>time.Duration\<close>), \<^verbatim>\<open>refreshAccessToken\<close> returns the expiry
  \<open>issue time + expires_in seconds - 60 seconds\<close>, and \<^verbatim>\<open>GetAccessToken\<close>, when it had
  to refresh, stores the token with that expiry under the account's key. For
  \<^verbatim>\<open>expires_in = 7200\<close> the expiry is 7140 seconds after the issue time.
\<close>

theorem refresh_expiry:
  assumes "client_Get e (getHTTPClient e c)
             (token_endpoint @ url_QueryEscape e (CorpID c) @ ''&corpsecret=''
                @ url_QueryEscape e (AgentSecret c)) = Inr resp"
    and "io_ReadAll resp = Inr body"
    and "json_Unmarshal_token e body = Inr res"
    and "tok_ErrCode res = 0" and "AccessToken res \<noteq> ''''"
    and "0 < ExpiresIn res" and "ExpiresIn res \<le> 9223372036"
  shows "fst (refreshAccessToken e c w) =
           (AccessToken res,
            now_refreshAccessToken e + ExpiresIn res * Second - 60 * Second, None)
       \<and> (CorpID c \<noteq> '''' \<and> AgentSecret c \<noteq> '''' \<and> \<not> cache_hit e c w \<longrightarrow>
            wechatCorpTokenCache (snd (GetAccessToken e c w)) (cacheKey c) =
              Some \<lparr>token = AccessToken res,
                    expiresAt = now_refreshAccessToken e + ExpiresIn res * Second - 60 * Second\<rparr>)"
proof -
  have "int64 (ExpiresIn res * 1000000000) = ExpiresIn res * 1000000000"
    using assms(6,7) by (intro int64_id) simp_all
  with refreshAccessToken_success [OF assms(1-6), of w]
  have r: "fst (refreshAccessToken e c w) =
           (AccessToken res,
            now_refreshAccessToken e + ExpiresIn res * Second - 60 * Second, None)"
    by (simp add: Second_def)
  show ?thesis
    using r GetAccessToken_miss_result(2) [OF _ _ _ r] by simp
qed

theorem refresh_expiry_witness:
  "fst (refreshAccessToken env_example account_example init_world)
     = (''T1'', now_refreshAccessToken env_example + 7140 * Second, None)
   \<and> wechatCorpTokenCache (snd (GetAccessToken env_example account_example init_world))
        (cacheKey account_example)
     = Some \<lparr>token = ''T1'', expiresAt = now_refreshAccessToken env_example + 7140 * Second\<rparr>"
  using refresh_expiry [of env_example account_example "\<lparr>Body = Inr ''token-json''\<rparr>"
      "''token-json''"
      "\<lparr>tok_ErrCode = 0, tok_ErrMsg = ''ok'', AccessToken = ''T1'', ExpiresIn = 7200\<rparr>"
      init_world]
  by (simp add: env_example_def account_example_def io_ReadAll_def cache_hit_def map_index_def
      init_world_def Second_def)

text \<open>
  Without the bound on the lifetime the statement fails: with \<^verbatim>\<open>expires_in = 10000000000\<close>
  the multiplication \<^verbatim>\<open>time.Duration(res.ExpiresIn) * time.Second\<close> wraps around. The
  refresh succeeds, and the expiry it returns is not
  \<open>issue time + 10000000000 seconds - 60 seconds\<close>; it lies before the issue time.
\<close>

theorem refresh_expiry_counterexample:
  "snd (snd (fst (refreshAccessToken env_huge_ttl account_example init_world))) = None
   \<and> fst (snd (fst (refreshAccessToken env_huge_ttl account_example init_world)))
       \<noteq> now_refreshAccessToken env_huge_ttl + 10000000000 * Second - 60 * Second
   \<and> fst (snd (fst (refreshAccessToken env_huge_ttl account_example init_world)))
       < now_refreshAccessToken env_huge_ttl"
  by (simp add: refreshAccessToken_def env_huge_ttl_def env_example_def account_example_def
      io_ReadAll_def Let_def Time_Add_def Duration_mul_def Second_def int64_def)

text \<open>
  The bound of the amended statement is the largest possible: every longer lifetime
  overflows, and the expiry then lies before \<open>issue time + expires_in seconds - 60 seconds\<close>.
\<close>

lemma int64_wraps:
  assumes "2 ^ 63 \<le> x"
  shows "int64 x < x"
proof -
  have "(x + 2 ^ 63) mod 2 ^ 64 < (2 ^ 64 :: int)"
    by simp
  then have "int64 x < 2 ^ 63"
    by (simp add: int64_def)
  with assms show ?thesis by simp
qed

lemma refreshAccessToken_overflow:
  assumes "client_Get e (getHTTPClient e c)
             (token_endpoint @ url_QueryEscape e (CorpID c) @ ''&corpsecret=''
                @ url_QueryEscape e (AgentSecret c)) = Inr resp"
    and "io_ReadAll resp = Inr body"
    and "json_Unmarshal_token e body = Inr res"
    and "tok_ErrCode res = 0" and "AccessToken res \<noteq> ''''"
    and "9223372036 < ExpiresIn res"
  shows "fst (snd (fst (refreshAccessToken e c w)))
           < now_refreshAccessToken e + ExpiresIn res * Second - 60 * Second"
proof -
  have pos: "0 < ExpiresIn res" using assms(6) by simp
  have "2 ^ 63 \<le> ExpiresIn res * 1000000000"
    using assms(6) by simp
  then have "int64 (ExpiresIn res * 1000000000) < ExpiresIn res * 1000000000"
    by (rule int64_wraps)
  with refreshAccessToken_success [OF assms(1-5) pos, of w] show ?thesis
    by (simp add: Second_def)
qed

subsection \<open>Failures of \<^verbatim>\<open>GetAccessToken\<close>\<close>

text \<open>
  C5. \<^verbatim>\<open>GetAccessToken\<close> returns an error and the state it was given when \<^verbatim>\<open>CorpID\<close> or
  \<^verbatim>\<open>AgentSecret\<close> is empty. When it has to ask the provider (the cache holds no usable
  entry) and the answer carries a non-zero error code, or no access token, or a lifetime
  that is not positive, it returns the empty token with an error and the cache is as it
  was. Whenever it returns an error at all, the token is empty and the cache is as it
  was.
\<close>

theorem GetAccessToken_failures:
  "(CorpID c = '''' \<or> AgentSecret c = '''' \<longrightarrow>
      GetAccessToken e c w = (('''', Some (Error msg_param_missing)), w))
   \<and> (\<forall>resp body res.
         CorpID c \<noteq> '''' \<and> AgentSecret c \<noteq> '''' \<and> \<not> cache_hit e c w
         \<and> client_Get e (getHTTPClient e c)
             (token_endpoint @ url_QueryEscape e (CorpID c) @ ''&corpsecret=''
                @ url_QueryEscape e (AgentSecret c)) = Inr resp
         \<and> io_ReadAll resp = Inr body
         \<and> json_Unmarshal_token e body = Inr res
         \<and> (tok_ErrCode res \<noteq> 0 \<or> AccessToken res = '''' \<or> ExpiresIn res \<le> 0)
         \<longrightarrow> fst (GetAccessToken e c w) =
               ('''', Some (Error (if tok_ErrCode res \<noteq> 0 then tok_ErrMsg res
                                   else msg_token_invalid)))
             \<and> wechatCorpTokenCache (snd (GetAccessToken e c w)) = wechatCorpTokenCache w)
   \<and> (snd (fst (GetAccessToken e c w)) \<noteq> None \<longrightarrow>
         fst (fst (GetAccessToken e c w)) = ''''
         \<and> wechatCorpTokenCache (snd (GetAccessToken e c w)) = wechatCorpTokenCache w)"
proof (intro conjI allI impI)
  assume "CorpID c = '''' \<or> AgentSecret c = ''''"
  then show "GetAccessToken e c w = (('''', Some (Error msg_param_missing)), w)"
    by (auto simp: GetAccessToken_def)
next
  fix resp body res
  assume a: "CorpID c \<noteq> '''' \<and> AgentSecret c \<noteq> '''' \<and> \<not> cache_hit e c w
         \<and> client_Get e (getHTTPClient e c)
             (token_endpoint @ url_QueryEscape e (CorpID c) @ ''&corpsecret=''
                @ url_QueryEscape e (AgentSecret c)) = Inr resp
         \<and> io_ReadAll resp = Inr body
         \<and> json_Unmarshal_token e body = Inr res
         \<and> (tok_ErrCode res \<noteq> 0 \<or> AccessToken res = '''' \<or> ExpiresIn res \<le> 0)"
  then have r: "fst (refreshAccessToken e c w) =
      ('''', Time_zero, Some (Error (if tok_ErrCode res \<noteq> 0 then tok_ErrMsg res
                                     else msg_token_invalid)))"
    by (auto simp: refreshAccessToken_def Let_def)
  from a show "fst (GetAccessToken e c w) =
               ('''', Some (Error (if tok_ErrCode res \<noteq> 0 then tok_ErrMsg res
                                   else msg_token_invalid)))"
    using GetAccessToken_miss_result(1) [OF _ _ _ r] by simp
  then have "snd (fst (GetAccessToken e c w)) \<noteq> None" by simp
  then show "wechatCorpTokenCache (snd (GetAccessToken e c w)) = wechatCorpTokenCache w"
    using GetAccessToken_failure_keeps_cache by blast
next
  assume "snd (fst (GetAccessToken e c w)) \<noteq> None"
  then show "fst (fst (GetAccessToken e c w)) = ''''"
    and "wechatCorpTokenCache (snd (GetAccessToken e c w)) = wechatCorpTokenCache w"
    using GetAccessToken_failure_keeps_cache by blast+
qed

theorem GetAccessToken_failures_witness:
  "GetAccessToken env_example (account_example\<lparr>AgentSecret := ''''\<rparr>) init_world
     = (('''', Some (Error msg_param_missing)), init_world)
   \<and> fst (GetAccessToken env_provider_error account_example init_world)
     = ('''', Some (Error ''invalid corpid''))
   \<and> wechatCorpTokenCache (snd (GetAccessToken env_provider_error account_example init_world))
     = Map.empty
   \<and> fst (GetAccessToken env_zero_ttl account_example init_world)
     = ('''', Some (Error msg_token_invalid))
   \<and> wechatCorpTokenCache (snd (GetAccessToken env_zero_ttl account_example init_world))
     = Map.empty"
  using GetAccessToken_failures [of "account_example\<lparr>AgentSecret := ''''\<rparr>" env_example init_world]
    GetAccessToken_failures [of account_example env_provider_error init_world]
    GetAccessToken_failures [of account_example env_zero_ttl init_world]
  by (simp add: env_example_def env_provider_error_def env_zero_ttl_def account_example_def
      io_ReadAll_def cache_hit_def map_index_def init_world_def)

subsection \<open>The dispatcher\<close>

lemma SendUnified_validation_error:
  assumes "ValidateDiffIns k ins = (errStr, cfg)" and "errStr \<noteq> ''''"
  shows "SendUnified k e (WayDetailWeChatCorpAccount_ptr auth) ins content w = ((errStr, ''''), w)"
  using assms by (simp add: SendUnified_def)

lemma SendUnified_pipeline:
  assumes "ValidateDiffIns k ins = ('''', InsWeChatCorpAccountConfig_value config)"
    and "FormatContent k content = (contentType, formattedContent, None)"
  shows "SendUnified k e (WayDetailWeChatCorpAccount_ptr auth) ins content w =
           SendUnified_dispatch e (SendUnified_cli auth) contentType formattedContent content
             (SendUnified_toUser config content) w"
  using assms by (simp add: SendUnified_def)

lemma SendUnified_result_unknown:
  "SendUnified_result (('''', Some (Error (msg_unknown_kind @ contentType))), w)
     = (('''', msg_send_failed @ msg_unknown_kind @ contentType), w)"
  by (simp add: SendUnified_result_def)

text \<open>The dispatcher changes the state only through \<^verbatim>\<open>send\<close>: it stays among the reachable states.\<close>

lemma SendUnified_result_world: "snd (SendUnified_result r) = snd r"
  by (cases r) (auto simp: SendUnified_result_def Let_def split: prod.splits)

lemma SendUnified_dispatch_reachable:
  assumes "reachable w"
  shows "reachable (snd (SendUnified_dispatch e cli contentType formattedContent content toUser w))"
  using assms
  by (simp add: SendUnified_dispatch_def SendUnified_result_world
        SendMarkdown_def SendText_def SendTextCard_def reachable.send)

lemma SendUnified_reachable:
  assumes "reachable w"
  shows "reachable (snd (SendUnified k e m ins content w))"
proof (cases m)
  case other_msgObj
  with assms show ?thesis by (simp add: SendUnified_def)
next
  case (WayDetailWeChatCorpAccount_ptr auth)
  obtain errStr cfg where v: "ValidateDiffIns k ins = (errStr, cfg)"
    by (cases "ValidateDiffIns k ins") auto
  obtain contentType formattedContent err
    where f: "FormatContent k content = (contentType, formattedContent, err)"
    by (cases "FormatContent k content") auto
  show ?thesis
    using assms WayDetailWeChatCorpAccount_ptr v f SendUnified_dispatch_reachable [OF assms]
    by (cases cfg; cases err) (simp_all add: SendUnified_def Let_def)
qed

lemmas example_defs = collaborators_example_def env_example_def way_example_def content_example_def
  init_world_def SendUnified_dispatch_def SendUnified_result_def SendUnified_cli_def
  SendUnified_toUser_def IsAtAll_def GetAtUserIds_def
  SendTextCard_def SendText_def SendMarkdown_def send_def GetAccessToken_def
  refreshAccessToken_def getHTTPClient_def map_index_def io_ReadAll_def
  FormatTypeMarkdown_def FormatTypeText_def Let_def
  Time_Before_def Time_Add_def posted_def

text \<open>
  C1. A non-empty validation message is expected as the error message of the result,
  its second component. The code returns it in the first: when \<^verbatim>\<open>ValidateDiffIns\<close>
  returns the message \<open>to_account is empty\<close>, \<^verbatim>\<open>SendUnified\<close> returns that message as
  the response body and the empty string as the error message (line 27); the state is
  unchanged. The other failures of the function (lines 21, 36 and 72 to 74) put their
  message in the second component.
\<close>

theorem SendUnified_validation_error_in_body:
  "SendUnified collaborators_invalid env_example (WayDetailWeChatCorpAccount_ptr way_example) ()
     content_example init_world
   = ((''to_account is empty'', ''''), init_world)"
  by (rule SendUnified_validation_error) (simp_all add: collaborators_invalid_def)

text \<open>
  C2. When the auth object has the expected type, validation succeeds and a format is
  negotiated, the recipient that \<^verbatim>\<open>SendUnified\<close> hands to the client is \<^verbatim>\<open>@all\<close> if
  \<open>mentionAll\<close> is set, whatever the mention list; otherwise the mentioned user IDs joined
  with \<^verbatim>\<open>|\<close> if there are any; otherwise the \<^verbatim>\<open>ToAccount\<close> of the config.
\<close>

theorem target_resolution_precedence:
  "SendUnified_toUser config content =
     (if mentionAll content then ''@all''
      else if mentionUserIDs content \<noteq> [] then strings_Join (mentionUserIDs content) ''|''
      else ToAccount config)
   \<and> (ValidateDiffIns k ins = ('''', InsWeChatCorpAccountConfig_value config)
        \<and> FormatContent k content = (contentType, formattedContent, None) \<longrightarrow>
      SendUnified k e (WayDetailWeChatCorpAccount_ptr auth) ins content w =
        SendUnified_dispatch e (SendUnified_cli auth) contentType formattedContent content
          (if mentionAll content then ''@all''
           else if mentionUserIDs content \<noteq> [] then strings_Join (mentionUserIDs content) ''|''
           else ToAccount config) w)"
proof (intro conjI impI)
  show target: "SendUnified_toUser config content =
     (if mentionAll content then ''@all''
      else if mentionUserIDs content \<noteq> [] then strings_Join (mentionUserIDs content) ''|''
      else ToAccount config)"
    by (simp add: SendUnified_toUser_def IsAtAll_def GetAtUserIds_def)
  assume "ValidateDiffIns k ins = ('''', InsWeChatCorpAccountConfig_value config)
        \<and> FormatContent k content = (contentType, formattedContent, None)"
  then have "SendUnified k e (WayDetailWeChatCorpAccount_ptr auth) ins content w =
           SendUnified_dispatch e (SendUnified_cli auth) contentType formattedContent content
             (SendUnified_toUser config content) w"
    by (simp add: SendUnified_pipeline)
  then show "SendUnified k e (WayDetailWeChatCorpAccount_ptr auth) ins content w =
        SendUnified_dispatch e (SendUnified_cli auth) contentType formattedContent content
          (if mentionAll content then ''@all''
           else if mentionUserIDs content \<noteq> [] then strings_Join (mentionUserIDs content) ''|''
           else ToAccount config) w"
    unfolding target .
qed

theorem target_resolution_precedence_witness:
  "posted (snd (SendUnified collaborators_example env_example
                    (WayDetailWeChatCorpAccount_ptr way_example) ()
                    (content_example\<lparr>mentionAll := True\<rparr>) init_world)) = [''textcard:@all'']
   \<and> posted (snd (SendUnified collaborators_example env_example
                    (WayDetailWeChatCorpAccount_ptr way_example) ()
                    content_example init_world)) = [''textcard:u1|u2'']
   \<and> posted (snd (SendUnified collaborators_example env_example
                    (WayDetailWeChatCorpAccount_ptr way_example) ()
                    (content_example\<lparr>mentionUserIDs := []\<rparr>) init_world)) = [''textcard:ops'']"
  using target_resolution_precedence [of "\<lparr>ToAccount = ''ops''\<rparr>"
        "content_example\<lparr>mentionAll := True\<rparr>" collaborators_example "()"
        "''text''" "''disk full''" env_example way_example init_world]
    target_resolution_precedence [of "\<lparr>ToAccount = ''ops''\<rparr>"
        "content_example" collaborators_example "()"
        "''text''" "''disk full''" env_example way_example init_world]
    target_resolution_precedence [of "\<lparr>ToAccount = ''ops''\<rparr>"
        "content_example\<lparr>mentionUserIDs := []\<rparr>" collaborators_example "()"
        "''text''" "''disk full''" env_example way_example init_world]
  by (simp add: example_defs)

text \<open>
  C7. When the auth object has the expected type, validation succeeds and a format is
  negotiated, the result of \<^verbatim>\<open>SendUnified\<close> is the result of \<^verbatim>\<open>SendMarkdown\<close> for the
  kind markdown; of \<^verbatim>\<open>SendTextCard\<close> for the kind text when the content has both a
  title and a URL; of \<^verbatim>\<open>SendText\<close> for the kind text otherwise; each passed through lines
  70 to 74. For any other kind it is the empty body with the send-failure prefix followed
  by the unknown-content-type message and the kind, and the state is unchanged.
\<close>

theorem dispatch_by_content_type:
  assumes "ValidateDiffIns k ins = ('''', InsWeChatCorpAccountConfig_value config)"
    and "FormatContent k content = (contentType, formattedContent, None)"
  shows "let toUser = SendUnified_toUser config content;
             cli = SendUnified_cli auth;
             result = SendUnified k e (WayDetailWeChatCorpAccount_ptr auth) ins content w
         in (contentType = FormatTypeMarkdown \<longrightarrow>
               result = SendUnified_result (SendMarkdown e cli toUser formattedContent w))
          \<and> (contentType = FormatTypeText \<and> Title content \<noteq> '''' \<and> URL content \<noteq> '''' \<longrightarrow>
               result = SendUnified_result
                 (SendTextCard e cli toUser (Title content) formattedContent (URL content) w))
          \<and> (contentType = FormatTypeText \<and> (Title content = '''' \<or> URL content = '''') \<longrightarrow>
               result = SendUnified_result (SendText e cli toUser formattedContent w))
          \<and> (contentType \<noteq> FormatTypeMarkdown \<and> contentType \<noteq> FormatTypeText \<longrightarrow>
               result = (('''', msg_send_failed @ msg_unknown_kind @ contentType), w))"
  unfolding SendUnified_pipeline [OF assms] Let_def
  by (auto simp: SendUnified_dispatch_def SendUnified_result_unknown FormatTypeMarkdown_def
      FormatTypeText_def)

theorem dispatch_by_content_type_witness:
  "posted (snd (SendUnified collaborators_markdown env_example
                  (WayDetailWeChatCorpAccount_ptr way_example) () content_example init_world))
     = [''markdown:u1|u2'']
   \<and> posted (snd (SendUnified collaborators_example env_example
                  (WayDetailWeChatCorpAccount_ptr way_example) () content_example init_world))
     = [''textcard:u1|u2'']
   \<and> posted (snd (SendUnified collaborators_example env_example
                  (WayDetailWeChatCorpAccount_ptr way_example) ()
                  (content_example\<lparr>URL := ''''\<rparr>) init_world))
     = [''text:u1|u2'']
   \<and> SendUnified collaborators_html env_example
         (WayDetailWeChatCorpAccount_ptr way_example) () content_example init_world
     = (('''', msg_send_failed @ msg_unknown_kind @ ''html''), init_world)"
  using dispatch_by_content_type [of collaborators_markdown "()" "\<lparr>ToAccount = ''ops''\<rparr>"
        content_example "''markdown''" "''disk full''" way_example env_example init_world]
    dispatch_by_content_type [of collaborators_example "()" "\<lparr>ToAccount = ''ops''\<rparr>"
        content_example "''text''" "''disk full''" way_example env_example init_world]
    dispatch_by_content_type [of collaborators_example "()" "\<lparr>ToAccount = ''ops''\<rparr>"
        "content_example\<lparr>URL := ''''\<rparr>" "''text''" "''disk full''" way_example env_example
        init_world]
    dispatch_by_content_type [of collaborators_html "()" "\<lparr>ToAccount = ''ops''\<rparr>"
        content_example "''html''" "''disk full''" way_example env_example init_world]
  by (simp add: example_defs collaborators_markdown_def collaborators_html_def)

end
